theory Spec2Isabelle
  imports Main
begin

section \<open>The schema contract consumed by the builder\<close>

text \<open>
  Modelled from the spec: the interface \<^verbatim>\<open>SchemaObjectContract\<close> is imported from
  \<^verbatim>\<open>../contracts/schema\<close>, which is not among the sources. Its fields are the
  ones the specification lists for a schema fragment (section 3) and the ones
  \<^verbatim>\<open>typeDefinition.ts\<close> reads. Every field is optional (\<open>None\<close> is an absent field).
  \<^item> \<open>properties\<close> is an association list in the order of \<^verbatim>\<open>Object.keys\<close>; a
    declared name may map to an absent fragment (\<open>None\<close>).
  \<^item> \<open>allOf\<close>, \<open>anyOf\<close> and \<open>oneOf\<close> are arrays of fragments; \<open>not\<close> is either
    an array (\<open>Many\<close>) or, as in JSON Schema, one fragment (\<open>Single\<close>).
  \<^item> \<open>example\<close> is a string, a number, a boolean or an object; an object is
    represented by the text that \<^verbatim>\<open>JSON.stringify(example, null, 4)\<close> gives for it.
  \<^item> enumeration literals are kept as their text.
  \<^item> a contract is a value, as parsed from JSON: no fragment object occurs at two
    places of a contract.
\<close>

datatype 'a fragments = Many "'a list" | Single 'a

datatype example_value =
    ExampleString string
  | ExampleNumber int
  | ExampleBoolean bool
  | ExampleObject string

datatype contract = Contract
  (contract_type: "string option")
  (contract_format: "string option")
  (contract_title: "string option")
  (contract_description: "string option")
  (contract_example: "example_value option")
  (contract_enum: "string list option")
  (contract_properties: "(string \<times> contract option) list option")
  (contract_required: "string list option")
  (contract_items: "contract option")
  (contract_ref: "string option")
  (contract_allOf: "contract list option")
  (contract_anyOf: "contract list option")
  (contract_oneOf: "contract list option")
  (contract_not: "contract fragments option")

text \<open>The object literal \<^verbatim>\<open>{}\<close>.\<close>

definition empty_contract :: contract where
  "empty_contract =
     Contract None None None None None None None None None None None None None None"

text \<open>Assignments to fields of a fragment.\<close>

fun set_contract_type :: "string option \<Rightarrow> contract \<Rightarrow> contract" where
  "set_contract_type v (Contract ty fo ti de ex en pr rq it rf al an on no) =
     Contract v fo ti de ex en pr rq it rf al an on no"

fun set_contract_properties ::
  "(string \<times> contract option) list option \<Rightarrow> contract \<Rightarrow> contract" where
  "set_contract_properties v (Contract ty fo ti de ex en pr rq it rf al an on no) =
     Contract ty fo ti de ex en v rq it rf al an on no"

fun set_contract_items :: "contract option \<Rightarrow> contract \<Rightarrow> contract" where
  "set_contract_items v (Contract ty fo ti de ex en pr rq it rf al an on no) =
     Contract ty fo ti de ex en pr rq v rf al an on no"

subsection \<open>Truthiness of string fields\<close>

text \<open>
  \<^verbatim>\<open>if (x)\<close> and \<^verbatim>\<open>x || y\<close> on an optional string: \<^verbatim>\<open>undefined\<close> and the empty
  string are falsy. \<open>truthy_val x\<close> is the value of \<open>x\<close> when it is truthy.
  Arrays and objects are truthy whenever they are present.
\<close>

definition truthy_val :: "string option \<Rightarrow> string option" where
  "truthy_val x = (case x of None \<Rightarrow> None | Some v \<Rightarrow> if v = [] then None else Some v)"

definition truthy :: "string option \<Rightarrow> bool" where
  "truthy x = (truthy_val x \<noteq> None)"

definition or_else :: "string option \<Rightarrow> string \<Rightarrow> string" where
  "or_else x y = (case truthy_val x of Some v \<Rightarrow> v | None \<Rightarrow> y)"

section \<open>The type-definition tree produced by the builder\<close>

datatype property_type =
    Primitive string
  | Reference string
  | ArrayOfPrimitive string
  | ArrayOfReference string
  | Combination string "property_type list"

fun displayAs :: "property_type \<Rightarrow> string" where
  "displayAs (Primitive n) = ''primitive''"
| "displayAs (Reference n) = ''reference''"
| "displayAs (ArrayOfPrimitive n) = ''arrayOfPrimitive''"
| "displayAs (ArrayOfReference n) = ''arrayOfReference''"
| "displayAs (Combination k ms) = ''combination''"

text \<open>The class an object was created from, which \<^verbatim>\<open>instanceof\<close> inspects.\<close>

datatype property_class =
    PrimitiveProperty
  | EnumerationProperty
  | CombinationProperty
  | ObjectProperty
  | IndexerProperty
  | TypeDefinitionRoot

datatype property = Property
  (instance_of: property_class)
  (name: string)
  (description: "string option")
  (type: property_type)
  (kind: "string option")
  (example: "example_value option")
  (exampleFormat: string)
  (required: bool)
  (isArray: bool)
  (enum_p: "string list option")
  (properties: "property list option")

fun set_instance_of :: "property_class \<Rightarrow> property \<Rightarrow> property" where
  "set_instance_of v (Property cl na de ty ki ex ef rq ia en pr) =
     Property v na de ty ki ex ef rq ia en pr"

fun set_name :: "string \<Rightarrow> property \<Rightarrow> property" where
  "set_name v (Property cl na de ty ki ex ef rq ia en pr) =
     Property cl v de ty ki ex ef rq ia en pr"

fun set_type :: "property_type \<Rightarrow> property \<Rightarrow> property" where
  "set_type v (Property cl na de ty ki ex ef rq ia en pr) =
     Property cl na de v ki ex ef rq ia en pr"

fun set_kind :: "string option \<Rightarrow> property \<Rightarrow> property" where
  "set_kind v (Property cl na de ty ki ex ef rq ia en pr) =
     Property cl na de ty v ex ef rq ia en pr"

fun set_enum :: "string list option \<Rightarrow> property \<Rightarrow> property" where
  "set_enum v (Property cl na de ty ki ex ef rq ia en pr) =
     Property cl na de ty ki ex ef rq ia v pr"

fun set_properties :: "property list option \<Rightarrow> property \<Rightarrow> property" where
  "set_properties v (Property cl na de ty ki ex ef rq ia en pr) =
     Property cl na de ty ki ex ef rq ia en v"

text \<open>\<^verbatim>\<open>p instanceof TypeDefinitionObjectProperty\<close>: the class or one of its subclasses.\<close>

definition instanceof_TypeDefinitionObjectProperty :: "property \<Rightarrow> bool" where
  "instanceof_TypeDefinitionObjectProperty p =
     (instance_of p = ObjectProperty \<or> instance_of p = IndexerProperty
      \<or> instance_of p = TypeDefinitionRoot)"

datatype error = TypeError

section \<open>Constructors\<close>

text \<open>\<^verbatim>\<open>$ref && $ref.split("/").pop()\<close>\<close>

fun split_slash :: "string \<Rightarrow> string list" where
  "split_slash [] = [[]]"
| "split_slash (c # cs) =
     (if c = CHR ''/'' then [] # split_slash cs
      else (case split_slash cs of
              [] \<Rightarrow> [[c]]
            | w # ws \<Rightarrow> (c # w) # ws))"

definition getTypeNameFromRef :: "string \<Rightarrow> string" where
  "getTypeNameFromRef ref = (if ref = [] then ref else last (split_slash ref))"

text \<open>
  The value stored in \<^verbatim>\<open>this.example\<close>: nothing for a falsy example, the
  pretty-printed text for an object, the value itself otherwise.
\<close>

definition example_of :: "example_value option \<Rightarrow> example_value option" where
  "example_of e =
     (case e of
        None \<Rightarrow> None
      | Some (ExampleString s) \<Rightarrow> if s = [] then None else Some (ExampleString s)
      | Some (ExampleNumber n) \<Rightarrow> if n = 0 then None else Some (ExampleNumber n)
      | Some (ExampleBoolean b) \<Rightarrow> if b then Some (ExampleBoolean b) else None
      | Some (ExampleObject txt) \<Rightarrow> Some (ExampleString txt))"

text \<open>
  The constructor of the abstract class \<^verbatim>\<open>TypeDefinitionProperty\<close>. The class of
  the object under construction is passed along; \<^verbatim>\<open>kind\<close> and \<^verbatim>\<open>enum\<close> are left
  unset, \<^verbatim>\<open>exampleFormat\<close> has its field initialiser.
\<close>

definition TypeDefinitionProperty ::
  "property_class \<Rightarrow> string \<Rightarrow> contract \<Rightarrow> bool \<Rightarrow> bool \<Rightarrow> property" where
  "TypeDefinitionProperty cls nm c isRequired isArr =
     Property cls
       (or_else (contract_title c) nm)
       (contract_description c)
       (Primitive (or_else (contract_format c) (or_else (contract_type c) ''object'')))
       None
       (example_of (contract_example c))
       ''json''
       isRequired
       isArr
       None
       None"

definition TypeDefinitionPrimitiveProperty ::
  "string \<Rightarrow> contract \<Rightarrow> bool \<Rightarrow> bool \<Rightarrow> property" where
  "TypeDefinitionPrimitiveProperty nm c isRequired isArr =
     set_kind (Some ''primitive'') (TypeDefinitionProperty PrimitiveProperty nm c isRequired isArr)"

definition TypeDefinitionEnumerationProperty ::
  "string \<Rightarrow> contract \<Rightarrow> bool \<Rightarrow> bool \<Rightarrow> property" where
  "TypeDefinitionEnumerationProperty nm c isRequired isArr =
     set_kind (Some ''enum'') (TypeDefinitionProperty EnumerationProperty nm c isRequired isArr)"

text \<open>
  The selection of \<^verbatim>\<open>combinationType\<close> and \<^verbatim>\<open>combinationArray\<close>: four independent
  \<^verbatim>\<open>if\<close> statements, each overwriting what the previous one chose.
\<close>

definition combination_selection ::
  "contract \<Rightarrow> string option \<times> contract fragments option" where
  "combination_selection c =
     (let s0 = (None, None);
          s1 = (case contract_allOf c of Some xs \<Rightarrow> (Some ''All of'', Some (Many xs)) | None \<Rightarrow> s0);
          s2 = (case contract_anyOf c of Some xs \<Rightarrow> (Some ''Any of'', Some (Many xs)) | None \<Rightarrow> s1);
          s3 = (case contract_oneOf c of Some xs \<Rightarrow> (Some ''One of'', Some (Many xs)) | None \<Rightarrow> s2);
          s4 = (case contract_not c of Some f \<Rightarrow> (Some ''Not'', Some f) | None \<Rightarrow> s3)
      in s4)"

definition combination_member :: "contract \<Rightarrow> property_type" where
  "combination_member item =
     (case truthy_val (contract_ref item) of
        Some r \<Rightarrow> Reference (getTypeNameFromRef r)
      | None \<Rightarrow> Primitive (or_else (contract_type item) ''object''))"

text \<open>
  \<^verbatim>\<open>combinationArray.map(...)\<close> raises a \<^verbatim>\<open>TypeError\<close> when \<^verbatim>\<open>combinationArray\<close> is
  \<^verbatim>\<open>undefined\<close> or is an object, which has no \<^verbatim>\<open>map\<close>.
\<close>

definition TypeDefinitionCombinationProperty ::
  "string \<Rightarrow> contract \<Rightarrow> bool \<Rightarrow> error + property" where
  "TypeDefinitionCombinationProperty nm c isRequired =
     (let this = TypeDefinitionProperty CombinationProperty nm c isRequired False
      in case combination_selection c of
           (Some combinationType, Some (Many combinationArray)) \<Rightarrow>
             Inr (set_kind (Some ''combination'')
                   (set_type (Combination combinationType (map combination_member combinationArray)) this))
         | _ \<Rightarrow> Inl TypeError)"

section \<open>Flattening\<close>

fun flattenNestedObjects :: "property \<Rightarrow> string \<Rightarrow> property list" where
  "flattenNestedObjects (Property cl na de ty ki ex ef rq ia en None) prefix = []"
| "flattenNestedObjects (Property cl na de ty ki ex ef rq ia en (Some ps)) prefix =
     concat (map (\<lambda>property.
        if instanceof_TypeDefinitionObjectProperty property
        then flattenNestedObjects property (prefix @ ''.'' @ name property)
        else [set_name (prefix @ ''.'' @ name property) property]) ps)"

section \<open>The object property builder\<close>

text \<open>
  Lines 219 to 233: the \<^verbatim>\<open>type\<close> of the child fragment is overwritten in place.
\<close>

definition normalize_type :: "contract \<Rightarrow> contract" where
  "normalize_type pso =
     (let p1 = (if truthy (contract_ref pso) then set_contract_type (Some ''object'') pso else pso);
          p2 = (if contract_items p1 \<noteq> None then set_contract_type (Some ''array'') p1 else p1);
          p3 = (if contract_allOf p2 \<noteq> None \<or> contract_anyOf p2 \<noteq> None
                   \<or> contract_oneOf p2 \<noteq> None \<or> contract_not p2 \<noteq> None
                then set_contract_type (Some ''combination'') p2 else p2)
      in p3)"

text \<open>\<^verbatim>\<open>contract.required?.includes(propertyName) || false\<close>\<close>

definition is_required :: "string list option \<Rightarrow> string \<Rightarrow> bool" where
  "is_required rq propertyName =
     (case rq of None \<Rightarrow> False | Some names \<Rightarrow> propertyName \<in> set names)"

text \<open>The \<^verbatim>\<open>catch\<close> block: a warning is logged and nothing is pushed.\<close>

definition catch_block :: "error + property list \<Rightarrow> property list" where
  "catch_block r = (case r of Inl e \<Rightarrow> [] | Inr pushed \<Rightarrow> pushed)"

text \<open>Sizes of fragments, for the termination proof of the builder.\<close>

lemma size_set_contract_type [simp]: "size (set_contract_type v c) = size c"
  by (cases c) simp

lemma size_normalize_type [simp]: "size (normalize_type c) = size c"
  by (simp add: normalize_type_def Let_def)

lemma size_empty_contract [simp]: "size empty_contract = 7"
  by (simp add: empty_contract_def)

lemma size_option_pos: "Suc 0 \<le> size_option f x"
  by (cases x) simp_all

lemma size_contract_lower: "7 \<le> size (c :: contract)"
proof (cases c)
  case (Contract ty fo ti de ex en pr rq it rf al an on no)
  have "Suc 0 \<le> size_option (size_list (size_prod (\<lambda>x. 0) (size_option size))) pr"
    and "Suc 0 \<le> size_option size it"
    and "Suc 0 \<le> size_option (size_list size) al"
    and "Suc 0 \<le> size_option (size_list size) an"
    and "Suc 0 \<le> size_option (size_list size) on"
    and "Suc 0 \<le> size_option (size_fragments size) no"
    by (rule size_option_pos)+
  with Contract show ?thesis by simp
qed

lemma size_contract_items:
  assumes "contract_items c = Some x"
  shows "size x + 7 \<le> size c"
proof (cases c)
  case (Contract ty fo ti de ex en pr rq it rf al an on no)
  have "Suc 0 \<le> size_option (size_list (size_prod (\<lambda>x. 0) (size_option size))) pr"
    and "Suc 0 \<le> size_option (size_list size) al"
    and "Suc 0 \<le> size_option (size_list size) an"
    and "Suc 0 \<le> size_option (size_list size) on"
    and "Suc 0 \<le> size_option (size_fragments size) no"
    by (rule size_option_pos)+
  with Contract assms show ?thesis by simp
qed

lemma size_contract_properties:
  assumes "contract_properties c = Some entries" and "(n, po) \<in> set entries"
  shows "size_option size po + 7 \<le> size c"
proof (cases c)
  case (Contract ty fo ti de ex en pr rq it rf al an on no)
  have "size_prod (\<lambda>x. 0) (size_option size) (n, po)
          \<le> size_list (size_prod (\<lambda>x. 0) (size_option size)) entries"
    using assms(2) by (rule size_list_estimation') simp
  moreover have "Suc 0 \<le> size_option size it"
    and "Suc 0 \<le> size_option (size_list size) al"
    and "Suc 0 \<le> size_option (size_list size) an"
    and "Suc 0 \<le> size_option (size_list size) on"
    and "Suc 0 \<le> size_option (size_fragments size) no"
    by (rule size_option_pos)+
  ultimately show ?thesis using Contract assms(1) by simp
qed

text \<open>
  The constructor of \<^verbatim>\<open>TypeDefinitionObjectProperty\<close>, the callback of its \<^verbatim>\<open>forEach\<close>
  and the constructor of \<^verbatim>\<open>TypeDefinitionIndexerProperty\<close>, which calls the first one
  on \<^verbatim>\<open>{}\<close>.
  \<^item> The callback assigns to \<^verbatim>\<open>propertySchemaObject.type\<close>, so the fragment is changed in
    place. The constructor and the callback therefore return, next to their result, the
    fragment as they leave it.
  \<^item> \<open>try_block\<close> is the body of the \<^verbatim>\<open>try\<close> statement for one declared name: \<open>Inl\<close> is
    the error thrown, \<open>Inr\<close> the properties pushed onto \<^verbatim>\<open>props\<close>, in order. No
    statement that can throw comes after a push. The \<^verbatim>\<open>catch\<close> block and the
    accumulation in \<^verbatim>\<open>props\<close> are in the constructor.
  \<^item> The calls of \<^verbatim>\<open>console.warn\<close> change neither the tree nor the fragment and are
    left out.
\<close>

function TypeDefinitionObjectProperty ::
    "string \<Rightarrow> contract \<Rightarrow> bool \<Rightarrow> bool \<Rightarrow> bool \<Rightarrow> property \<times> contract"
  and try_block ::
    "string list option \<Rightarrow> bool \<Rightarrow> string \<Rightarrow> contract option
       \<Rightarrow> (error + property list) \<times> contract option"
  and TypeDefinitionIndexerProperty :: "property_type \<Rightarrow> property"
where
  "TypeDefinitionObjectProperty nm c isRequired isArr nested =
     (let this = set_kind (Some ''object'') (TypeDefinitionProperty ObjectProperty nm c isRequired isArr)
      in case truthy_val (contract_ref c) of
           Some r \<Rightarrow> (set_type (Reference (getTypeNameFromRef r)) this, c)
         | None \<Rightarrow>
            (case contract_items c of
               Some items \<Rightarrow>
                 (let t0 = Primitive ''object'';
                      t1 = (case truthy_val (contract_type items) of
                              Some t \<Rightarrow> Primitive t | None \<Rightarrow> t0);
                      t2 = (case truthy_val (contract_ref items) of
                              Some r \<Rightarrow> Reference (getTypeNameFromRef r) | None \<Rightarrow> t1)
                  in (set_kind (Some ''indexer'')
                        (set_properties (Some [TypeDefinitionIndexerProperty t2]) this), c))
             | None \<Rightarrow>
                 (let this1 = (case contract_enum c of
                                 Some e \<Rightarrow> set_kind (Some ''enum'') (set_enum (Some e) this)
                               | None \<Rightarrow> this)
                  in case contract_properties c of
                       None \<Rightarrow> (this1, c)
                     | Some entries \<Rightarrow>
                         (let rs = map (\<lambda>(propertyName, propertySchemaObject).
                                     try_block (contract_required c) nested
                                       propertyName propertySchemaObject) entries;
                              props = concat (map (\<lambda>r. catch_block (fst r)) rs)
                          in (set_properties (Some props) this1,
                              set_contract_properties
                                (Some (zip (map fst entries) (map snd rs))) c)))))"
| "try_block rq nested propertyName None = (Inr [], None)"
| "try_block rq nested propertyName (Some pso0) =
     (let isRequired = is_required rq propertyName;
          pso = normalize_type pso0
      in if contract_type pso \<in> {Some ''integer'', Some ''number'', Some ''string'', Some ''boolean''}
         then (if contract_enum pso \<noteq> None
               then (Inr [TypeDefinitionEnumerationProperty propertyName pso isRequired False], Some pso)
               else (Inr [TypeDefinitionPrimitiveProperty propertyName pso isRequired False], Some pso))
         else if contract_type pso = Some ''object''
         then (case TypeDefinitionObjectProperty propertyName pso isRequired True True of
                 (objectProperty, pso') \<Rightarrow>
                   (if \<not> nested
                    then (Inr (flattenNestedObjects objectProperty propertyName), Some pso')
                    else (Inr [objectProperty], Some pso')))
         else if contract_type pso = Some ''array''
         then (let arrayProperty = TypeDefinitionPrimitiveProperty propertyName pso isRequired True
               in case contract_items pso of
                    None \<Rightarrow> (Inr [], Some pso)
                  | Some items \<Rightarrow>
                      (case truthy_val (contract_ref items) of
                         Some r \<Rightarrow>
                           (Inr [set_type (ArrayOfReference (getTypeNameFromRef r)) arrayProperty],
                            Some pso)
                       | None \<Rightarrow>
                          (case truthy_val (contract_type items) of
                             Some t \<Rightarrow>
                               (Inr [set_type (ArrayOfPrimitive t) arrayProperty], Some pso)
                           | None \<Rightarrow>
                              (case TypeDefinitionObjectProperty (propertyName @ ''[]'') items
                                      isRequired True True of
                                 (objectProperty, items') \<Rightarrow>
                                   (Inr [objectProperty, arrayProperty],
                                    Some (set_contract_items (Some items') pso))))))
         else if contract_type pso = Some ''combination''
         then (case TypeDefinitionCombinationProperty propertyName pso isRequired of
                 Inl e \<Rightarrow> (Inl e, Some pso)
               | Inr p \<Rightarrow> (Inr [p], Some pso))
         else (Inr [], Some pso))"
| "TypeDefinitionIndexerProperty t =
     set_type t (set_kind (Some ''indexer'')
       (set_instance_of IndexerProperty
          (fst (TypeDefinitionObjectProperty ''[]'' empty_contract True False False))))"
  by pat_completeness auto

termination
proof (relation "measure (\<lambda>x. case x of
          Inl (nm, c, isRequired, isArr, nested) \<Rightarrow> 2 * size c
        | Inr (Inl (rq, nested, propertyName, po)) \<Rightarrow> 2 * size_option size po + 1
        | Inr (Inr t) \<Rightarrow> 15)", goal_cases)
  case 1
  show ?case by simp
next
  case (2 nm c isRequired isArr nested this this1 entries entry propertyName po)
  then have "(propertyName, po) \<in> set entries" by simp
  from size_contract_properties [OF \<open>contract_properties c = Some entries\<close> this]
  show ?case by simp
next
  case (3 nm c isRequired isArr nested this items t0 t1 t2)
  from size_contract_items [OF \<open>contract_items c = Some items\<close>] size_contract_lower [of items]
  show ?case by simp
next
  case (4 rq nested propertyName pso0 isRequired pso)
  then show ?case by simp
next
  case (5 rq nested propertyName pso0 isRequired pso arrayProperty items)
  from size_contract_items [OF \<open>contract_items pso = Some items\<close>] \<open>pso = normalize_type pso0\<close>
  show ?case by simp
next
  case (6 t)
  show ?case by simp
qed

text \<open>
  The constructor of the class \<^verbatim>\<open>TypeDefinition\<close>, the root of the tree. In
  \<open>property_class\<close> the class is called \<open>TypeDefinitionRoot\<close>.
\<close>

definition TypeDefinition :: "string \<Rightarrow> contract \<Rightarrow> property \<times> contract" where
  "TypeDefinition nm c =
     (case TypeDefinitionObjectProperty nm c True False False of
        (this, c') \<Rightarrow> (set_name nm (set_instance_of TypeDefinitionRoot this), c'))"

section \<open>Auxiliary notions used in the statements\<close>

text \<open>
  What one declared child contributes to \<^verbatim>\<open>props\<close> (the \<^verbatim>\<open>try\<close> block followed by the
  \<^verbatim>\<open>catch\<close>), and the entry of \<^verbatim>\<open>contract.properties\<close> as the callback leaves it.
\<close>

definition pushed ::
  "string list option \<Rightarrow> bool \<Rightarrow> string \<times> contract option \<Rightarrow> property list" where
  "pushed rq nested entry = catch_block (fst (try_block rq nested (fst entry) (snd entry)))"

definition mutated ::
  "string list option \<Rightarrow> bool \<Rightarrow> string \<times> contract option \<Rightarrow> string \<times> contract option" where
  "mutated rq nested entry = (fst entry, snd (try_block rq nested (fst entry) (snd entry)))"

text \<open>
  The precedence as the specification words it: \<^verbatim>\<open>not\<close> wins over \<^verbatim>\<open>oneOf\<close>, which
  wins over \<^verbatim>\<open>anyOf\<close>, which wins over \<^verbatim>\<open>allOf\<close>. The result is the combination
  kind together with the value of the winning key.
\<close>

definition precedence :: "contract \<Rightarrow> (string \<times> contract fragments) option" where
  "precedence c =
     (case contract_not c of
        Some f \<Rightarrow> Some (''Not'', f)
      | None \<Rightarrow>
         (case contract_oneOf c of
            Some xs \<Rightarrow> Some (''One of'', Many xs)
          | None \<Rightarrow>
             (case contract_anyOf c of
                Some xs \<Rightarrow> Some (''Any of'', Many xs)
              | None \<Rightarrow>
                 (case contract_allOf c of
                    Some xs \<Rightarrow> Some (''All of'', Many xs)
                  | None \<Rightarrow> None))))"

text \<open>
  The properties below a node that are not instances of the object property class, in
  document order: the ones flattening is to emit. The definition does not look at names.
\<close>

fun leaf_properties :: "property \<Rightarrow> property list" where
  "leaf_properties (Property cl na de ty ki ex ef rq ia en None) = []"
| "leaf_properties (Property cl na de ty ki ex ef rq ia en (Some ps)) =
     concat (map (\<lambda>property.
        if instanceof_TypeDefinitionObjectProperty property
        then leaf_properties property
        else [property]) ps)"

text \<open>
  \<open>q\<close> is \<open>p\<close> with nothing but its name replaced, the new name being a dotted path
  that starts with \<open>prefix\<close> and ends with the old name.
\<close>

definition renamed_under :: "string \<Rightarrow> property \<Rightarrow> property \<Rightarrow> bool" where
  "renamed_under prefix q p =
     (\<exists>path. q = set_name (prefix @ path @ ''.'' @ name p) p)"

subsection \<open>Example fragments\<close>

definition with_type :: "string \<Rightarrow> contract" where
  "with_type t = set_contract_type (Some t) empty_contract"

definition with_properties ::
  "(string \<times> contract option) list \<Rightarrow> contract \<Rightarrow> contract" where
  "with_properties entries c = set_contract_properties (Some entries) c"

text \<open>\<^verbatim>\<open>{anyOf: [{type: "string"}], not: [{type: "integer"}]}\<close>\<close>

definition any_and_not :: contract where
  "any_and_not = Contract None None None None None None None None None None
     None (Some [with_type ''string'']) None (Some (Many [with_type ''integer'']))"

text \<open>\<^verbatim>\<open>{not: {type: "string"}}\<close>: \<^verbatim>\<open>not\<close> holds one fragment.\<close>

definition single_not :: contract where
  "single_not = Contract None None None None None None None None None None
     None None None (Some (Single (with_type ''string'')))"

text \<open>\<^verbatim>\<open>{properties: {x: {not: {type: "string"}}, y: {type: "string"}}}\<close>\<close>

definition single_not_parent :: contract where
  "single_not_parent =
     with_properties [(''x'', Some single_not), (''y'', Some (with_type ''string''))] empty_contract"

text \<open>\<^verbatim>\<open>{type: "string", format: "date-time"}\<close>\<close>

definition date_time_string :: contract where
  "date_time_string = Contract (Some ''string'') (Some ''date-time'') None None None None None
     None None None None None None None"

text \<open>\<^verbatim>\<open>{properties: {a: {type: "object", properties: {b: {type: "string"}}}}}\<close>\<close>

definition nested_object_example :: contract where
  "nested_object_example =
     with_properties
       [(''a'', Some (with_properties [(''b'', Some (with_type ''string''))] (with_type ''object'')))]
       empty_contract"

text \<open>\<^verbatim>\<open>{properties: {arr: {items: {properties: {o: {type: "object"}}}}}}\<close>\<close>

definition array_of_objects_example :: contract where
  "array_of_objects_example =
     with_properties
       [(''arr'', Some (set_contract_items
           (Some (with_properties [(''o'', Some (with_type ''object''))] empty_contract))
           empty_contract))]
       empty_contract"

text \<open>\<^verbatim>\<open>{items: {type: "string"}}\<close>\<close>

definition map_of_strings :: contract where
  "map_of_strings = set_contract_items (Some (with_type ''string'')) empty_contract"

section \<open>Basic facts about the builder\<close>

declare TypeDefinitionObjectProperty.simps [simp del]
declare try_block.simps(2) [simp del]
declare TypeDefinitionIndexerProperty.simps [simp del]

lemma set_contract_type_sel [simp]:
  "contract_type (set_contract_type v c) = v"
  "contract_format (set_contract_type v c) = contract_format c"
  "contract_title (set_contract_type v c) = contract_title c"
  "contract_description (set_contract_type v c) = contract_description c"
  "contract_example (set_contract_type v c) = contract_example c"
  "contract_enum (set_contract_type v c) = contract_enum c"
  "contract_properties (set_contract_type v c) = contract_properties c"
  "contract_required (set_contract_type v c) = contract_required c"
  "contract_items (set_contract_type v c) = contract_items c"
  "contract_ref (set_contract_type v c) = contract_ref c"
  "contract_allOf (set_contract_type v c) = contract_allOf c"
  "contract_anyOf (set_contract_type v c) = contract_anyOf c"
  "contract_oneOf (set_contract_type v c) = contract_oneOf c"
  "contract_not (set_contract_type v c) = contract_not c"
  by (cases c, simp)+

lemma set_contract_properties_sel [simp]:
  "contract_type (set_contract_properties v c) = contract_type c"
  "contract_format (set_contract_properties v c) = contract_format c"
  "contract_title (set_contract_properties v c) = contract_title c"
  "contract_description (set_contract_properties v c) = contract_description c"
  "contract_example (set_contract_properties v c) = contract_example c"
  "contract_enum (set_contract_properties v c) = contract_enum c"
  "contract_properties (set_contract_properties v c) = v"
  "contract_required (set_contract_properties v c) = contract_required c"
  "contract_items (set_contract_properties v c) = contract_items c"
  "contract_ref (set_contract_properties v c) = contract_ref c"
  "contract_allOf (set_contract_properties v c) = contract_allOf c"
  "contract_anyOf (set_contract_properties v c) = contract_anyOf c"
  "contract_oneOf (set_contract_properties v c) = contract_oneOf c"
  "contract_not (set_contract_properties v c) = contract_not c"
  by (cases c, simp)+

lemma set_contract_items_sel [simp]:
  "contract_type (set_contract_items v c) = contract_type c"
  "contract_format (set_contract_items v c) = contract_format c"
  "contract_title (set_contract_items v c) = contract_title c"
  "contract_description (set_contract_items v c) = contract_description c"
  "contract_example (set_contract_items v c) = contract_example c"
  "contract_enum (set_contract_items v c) = contract_enum c"
  "contract_properties (set_contract_items v c) = contract_properties c"
  "contract_required (set_contract_items v c) = contract_required c"
  "contract_items (set_contract_items v c) = v"
  "contract_ref (set_contract_items v c) = contract_ref c"
  "contract_allOf (set_contract_items v c) = contract_allOf c"
  "contract_anyOf (set_contract_items v c) = contract_anyOf c"
  "contract_oneOf (set_contract_items v c) = contract_oneOf c"
  "contract_not (set_contract_items v c) = contract_not c"
  by (cases c, simp)+

lemma set_property_sel [simp]:
  "kind (set_kind k p) = k"
  "type (set_kind k p) = type p"
  "name (set_kind k p) = name p"
  "required (set_kind k p) = required p"
  "isArray (set_kind k p) = isArray p"
  "properties (set_kind k p) = properties p"
  "instance_of (set_kind k p) = instance_of p"
  "kind (set_type t p) = kind p"
  "type (set_type t p) = t"
  "name (set_type t p) = name p"
  "required (set_type t p) = required p"
  "isArray (set_type t p) = isArray p"
  "properties (set_type t p) = properties p"
  "instance_of (set_type t p) = instance_of p"
  "kind (set_properties ps p) = kind p"
  "type (set_properties ps p) = type p"
  "name (set_properties ps p) = name p"
  "required (set_properties ps p) = required p"
  "isArray (set_properties ps p) = isArray p"
  "properties (set_properties ps p) = ps"
  "instance_of (set_properties ps p) = instance_of p"
  "kind (set_enum e p) = kind p"
  "type (set_enum e p) = type p"
  "name (set_enum e p) = name p"
  "required (set_enum e p) = required p"
  "isArray (set_enum e p) = isArray p"
  "properties (set_enum e p) = properties p"
  "instance_of (set_enum e p) = instance_of p"
  "kind (set_instance_of cl p) = kind p"
  "type (set_instance_of cl p) = type p"
  "name (set_instance_of cl p) = name p"
  "required (set_instance_of cl p) = required p"
  "isArray (set_instance_of cl p) = isArray p"
  "properties (set_instance_of cl p) = properties p"
  "instance_of (set_instance_of cl p) = cl"
  "kind (set_name n p) = kind p"
  "type (set_name n p) = type p"
  "name (set_name n p) = n"
  "required (set_name n p) = required p"
  "isArray (set_name n p) = isArray p"
  "properties (set_name n p) = properties p"
  "instance_of (set_name n p) = instance_of p"
  by (cases p, simp)+

lemma TypeDefinitionProperty_sel [simp]:
  "instance_of (TypeDefinitionProperty cls nm c r a) = cls"
  "name (TypeDefinitionProperty cls nm c r a) = or_else (contract_title c) nm"
  "type (TypeDefinitionProperty cls nm c r a) =
     Primitive (or_else (contract_format c) (or_else (contract_type c) ''object''))"
  "kind (TypeDefinitionProperty cls nm c r a) = None"
  "required (TypeDefinitionProperty cls nm c r a) = r"
  "isArray (TypeDefinitionProperty cls nm c r a) = a"
  "properties (TypeDefinitionProperty cls nm c r a) = None"
  by (simp_all add: TypeDefinitionProperty_def)

lemma TypeDefinitionObjectProperty_empty:
  "TypeDefinitionObjectProperty nm empty_contract r a n =
     (set_kind (Some ''object'') (TypeDefinitionProperty ObjectProperty nm empty_contract r a),
      empty_contract)"
  by (subst TypeDefinitionObjectProperty.simps) (simp add: empty_contract_def truthy_val_def)

lemma TypeDefinitionIndexerProperty_sel:
  "name (TypeDefinitionIndexerProperty t) = ''[]''"
  "required (TypeDefinitionIndexerProperty t) = True"
  "type (TypeDefinitionIndexerProperty t) = t"
  "kind (TypeDefinitionIndexerProperty t) = Some ''indexer''"
  "isArray (TypeDefinitionIndexerProperty t) = False"
  "properties (TypeDefinitionIndexerProperty t) = None"
  "instance_of (TypeDefinitionIndexerProperty t) = IndexerProperty"
  by (simp_all add: TypeDefinitionIndexerProperty.simps TypeDefinitionObjectProperty_empty)
     (simp_all add: empty_contract_def truthy_val_def or_else_def)

lemma zip_map_same: "zip (map f xs) (map g xs) = map (\<lambda>x. (f x, g x)) xs"
  by (induction xs) simp_all

lemma TypeDefinitionObjectProperty_ref:
  "truthy_val (contract_ref c) = Some r \<Longrightarrow>
   TypeDefinitionObjectProperty nm c isRequired isArr nested =
     (set_type (Reference (getTypeNameFromRef r))
        (set_kind (Some ''object'') (TypeDefinitionProperty ObjectProperty nm c isRequired isArr)), c)"
  by (subst TypeDefinitionObjectProperty.simps) simp

lemma TypeDefinitionObjectProperty_items:
  "truthy_val (contract_ref c) = None \<Longrightarrow> contract_items c = Some items \<Longrightarrow>
   snd (TypeDefinitionObjectProperty nm c isRequired isArr nested) = c"
  by (subst TypeDefinitionObjectProperty.simps) (simp add: Let_def)

lemma TypeDefinitionObjectProperty_plain:
  "truthy_val (contract_ref c) = None \<Longrightarrow> contract_items c = None \<Longrightarrow>
   contract_properties c = None \<Longrightarrow>
   TypeDefinitionObjectProperty nm c isRequired isArr nested =
     ((case contract_enum c of
         Some e \<Rightarrow> set_kind (Some ''enum'') (set_enum (Some e)
            (set_kind (Some ''object'') (TypeDefinitionProperty ObjectProperty nm c isRequired isArr)))
       | None \<Rightarrow> set_kind (Some ''object'') (TypeDefinitionProperty ObjectProperty nm c isRequired isArr)), c)"
  by (subst TypeDefinitionObjectProperty.simps) (simp add: Let_def)

lemma TypeDefinitionObjectProperty_properties:
  "truthy_val (contract_ref c) = None \<Longrightarrow> contract_items c = None \<Longrightarrow>
   contract_properties c = Some entries \<Longrightarrow>
   TypeDefinitionObjectProperty nm c isRequired isArr nested =
     (set_properties (Some (concat (map (pushed (contract_required c) nested) entries)))
       (case contract_enum c of
         Some e \<Rightarrow> set_kind (Some ''enum'') (set_enum (Some e)
            (set_kind (Some ''object'') (TypeDefinitionProperty ObjectProperty nm c isRequired isArr)))
       | None \<Rightarrow> set_kind (Some ''object'') (TypeDefinitionProperty ObjectProperty nm c isRequired isArr)),
      set_contract_properties (Some (map (mutated (contract_required c) nested) entries)) c)"
  apply (subst TypeDefinitionObjectProperty.simps)
  apply (simp add: Let_def pushed_def [abs_def] mutated_def [abs_def] comp_def case_prod_unfold zip_map_same)
  done

lemma normalize_type_sel [simp]:
  "contract_format (normalize_type c) = contract_format c"
  "contract_title (normalize_type c) = contract_title c"
  "contract_description (normalize_type c) = contract_description c"
  "contract_example (normalize_type c) = contract_example c"
  "contract_enum (normalize_type c) = contract_enum c"
  "contract_properties (normalize_type c) = contract_properties c"
  "contract_required (normalize_type c) = contract_required c"
  "contract_items (normalize_type c) = contract_items c"
  "contract_ref (normalize_type c) = contract_ref c"
  "contract_allOf (normalize_type c) = contract_allOf c"
  "contract_anyOf (normalize_type c) = contract_anyOf c"
  "contract_oneOf (normalize_type c) = contract_oneOf c"
  "contract_not (normalize_type c) = contract_not c"
  by (simp_all add: normalize_type_def Let_def)

lemma normalize_type_type:
  "contract_type (normalize_type c) =
     (if contract_allOf c \<noteq> None \<or> contract_anyOf c \<noteq> None
         \<or> contract_oneOf c \<noteq> None \<or> contract_not c \<noteq> None
      then Some ''combination''
      else if contract_items c \<noteq> None then Some ''array''
      else if truthy (contract_ref c) then Some ''object''
      else contract_type c)"
  by (auto simp add: normalize_type_def Let_def)

lemma try_block_combination:
  assumes "contract_type (normalize_type c) = Some ''combination''"
  shows "try_block rq nested n (Some c) =
     (case TypeDefinitionCombinationProperty n (normalize_type c) (is_required rq n) of
        Inl e \<Rightarrow> (Inl e, Some (normalize_type c))
      | Inr p \<Rightarrow> (Inr [p], Some (normalize_type c)))"
  using assms by (subst try_block.simps) (simp add: Let_def)

lemma combination_selection_precedence:
  "combination_selection c =
     (case precedence c of None \<Rightarrow> (None, None) | Some (k, f) \<Rightarrow> (Some k, Some f))"
  by (simp add: combination_selection_def precedence_def split: option.splits)

lemma precedence_type:
  "precedence c = Some kf \<Longrightarrow> contract_type (normalize_type c) = Some ''combination''"
  by (auto simp add: precedence_def normalize_type_type split: option.splits)

lemma TypeDefinitionCombinationProperty_cases:
  "TypeDefinitionCombinationProperty n c r =
     (case precedence c of
        Some (k, Many xs) \<Rightarrow>
          Inr (set_kind (Some ''combination'')
                (set_type (Combination k (map combination_member xs))
                   (TypeDefinitionProperty CombinationProperty n c r False)))
      | _ \<Rightarrow> Inl TypeError)"
  by (simp add: TypeDefinitionCombinationProperty_def combination_selection_precedence
        split: option.splits fragments.splits)

lemma precedence_normalize [simp]: "precedence (normalize_type c) = precedence c"
  by (simp add: precedence_def split: option.splits)

lemma try_block_primitive:
  assumes "contract_type (normalize_type c)
             \<in> {Some ''integer'', Some ''number'', Some ''string'', Some ''boolean''}"
  shows "try_block rq nested n (Some c) =
     (Inr [if contract_enum c \<noteq> None
           then TypeDefinitionEnumerationProperty n (normalize_type c) (is_required rq n) False
           else TypeDefinitionPrimitiveProperty n (normalize_type c) (is_required rq n) False],
      Some (normalize_type c))"
  using assms by (subst try_block.simps) (simp add: Let_def)

lemma object_properties_skip:
  assumes "pushed (contract_required parent) nested (n, po) = []"
  shows "properties (fst (TypeDefinitionObjectProperty nm
            (set_contract_properties (Some (before @ (n, po) # after)) parent) isRequired isArr nested))
       = properties (fst (TypeDefinitionObjectProperty nm
            (set_contract_properties (Some (before @ after)) parent) isRequired isArr nested))"
proof (cases "truthy_val (contract_ref parent)")
  case (Some r)
  then show ?thesis by (simp add: TypeDefinitionObjectProperty_ref)
next
  case None
  show ?thesis
  proof (cases "contract_items parent")
    case (Some items)
    with None show ?thesis
      by (simp add: TypeDefinitionObjectProperty.simps [of nm "set_contract_properties v parent" for v] Let_def)
  next
    case None': None
    with None assms show ?thesis
      by (simp add: TypeDefinitionObjectProperty_properties)
  qed
qed

lemma try_block_array_without_items:
  assumes "contract_type (normalize_type c) = Some ''array''" and "contract_items c = None"
  shows "try_block rq nested n (Some c) = (Inr [], Some (normalize_type c))"
  using assms by (subst try_block.simps) (simp add: Let_def)

lemma set_contract_type_same [simp]: "set_contract_type (contract_type c) c = c"
  by (cases c) simp

lemma set_contract_properties_twice [simp]:
  "set_contract_properties v (set_contract_properties w c) = set_contract_properties v c"
  by (cases c) simp

lemma set_contract_properties_same [simp]: "set_contract_properties (contract_properties c) c = c"
  by (cases c) simp

lemma set_contract_items_twice [simp]:
  "set_contract_items v (set_contract_items w c) = set_contract_items v c"
  by (cases c) simp

lemma normalize_type_eq:
  "normalize_type c = set_contract_type (contract_type (normalize_type c)) c"
  by (cases c) (simp add: normalize_type_def Let_def)

lemma normalize_type_stable:
  "contract_type (normalize_type d) = contract_type d \<Longrightarrow> normalize_type d = d"
  by (subst normalize_type_eq) simp

lemma normalize_type_idem [simp]: "normalize_type (normalize_type c) = normalize_type c"
  by (rule normalize_type_stable) (simp add: normalize_type_type)

lemma TypeDefinitionProperty_set_contract_properties [simp]:
  "TypeDefinitionProperty cls nm (set_contract_properties v c) r a = TypeDefinitionProperty cls nm c r a"
  by (simp add: TypeDefinitionProperty_def)

lemma TypeDefinitionProperty_set_contract_items [simp]:
  "TypeDefinitionProperty cls nm (set_contract_items v c) r a = TypeDefinitionProperty cls nm c r a"
  by (simp add: TypeDefinitionProperty_def)

lemma snd_TypeDefinitionObjectProperty:
  "\<exists>v. snd (TypeDefinitionObjectProperty nm c r a nested) = set_contract_properties v c"
proof (cases "truthy_val (contract_ref c)")
  case (Some x)
  then have "snd (TypeDefinitionObjectProperty nm c r a nested) = c"
    by (simp add: TypeDefinitionObjectProperty_ref)
  then have "snd (TypeDefinitionObjectProperty nm c r a nested) = set_contract_properties (contract_properties c) c"
    by simp
  then show ?thesis ..
next
  case None
  show ?thesis
  proof (cases "contract_items c")
    case (Some items)
    with None have "snd (TypeDefinitionObjectProperty nm c r a nested) = c"
      by (simp add: TypeDefinitionObjectProperty_items)
    then have "snd (TypeDefinitionObjectProperty nm c r a nested) = set_contract_properties (contract_properties c) c"
      by simp
    then show ?thesis ..
  next
    case None': None
    show ?thesis
    proof (cases "contract_properties c")
      case None'': None
      with None None' have "snd (TypeDefinitionObjectProperty nm c r a nested) = c"
        by (simp add: TypeDefinitionObjectProperty_plain)
      then have "snd (TypeDefinitionObjectProperty nm c r a nested) = set_contract_properties (contract_properties c) c"
      by simp
    then show ?thesis ..
    next
      case (Some entries)
      with None None' show ?thesis
        by (simp add: TypeDefinitionObjectProperty_properties) blast
    qed
  qed
qed

lemma try_block_object:
  assumes "contract_type (normalize_type c) = Some ''object''"
  shows "try_block rq nested n (Some c) =
     (Inr (if \<not> nested
           then flattenNestedObjects
                  (fst (TypeDefinitionObjectProperty n (normalize_type c) (is_required rq n) True True)) n
           else [fst (TypeDefinitionObjectProperty n (normalize_type c) (is_required rq n) True True)]),
      Some (snd (TypeDefinitionObjectProperty n (normalize_type c) (is_required rq n) True True)))"
  using assms by (subst try_block.simps) (simp add: Let_def case_prod_unfold)

lemma try_block_array_reference:
  assumes "contract_type (normalize_type c) = Some ''array''" and "contract_items c = Some items"
      and "truthy_val (contract_ref items) = Some r"
  shows "try_block rq nested n (Some c) =
     (Inr [set_type (ArrayOfReference (getTypeNameFromRef r))
             (TypeDefinitionPrimitiveProperty n (normalize_type c) (is_required rq n) True)],
      Some (normalize_type c))"
  using assms by (subst try_block.simps) (simp add: Let_def)

lemma try_block_array_primitive:
  assumes "contract_type (normalize_type c) = Some ''array''" and "contract_items c = Some items"
      and "truthy_val (contract_ref items) = None" and "truthy_val (contract_type items) = Some t"
  shows "try_block rq nested n (Some c) =
     (Inr [set_type (ArrayOfPrimitive t)
             (TypeDefinitionPrimitiveProperty n (normalize_type c) (is_required rq n) True)],
      Some (normalize_type c))"
  using assms by (subst try_block.simps) (simp add: Let_def)

lemma try_block_array_object:
  assumes "contract_type (normalize_type c) = Some ''array''" and "contract_items c = Some items"
      and "truthy_val (contract_ref items) = None" and "truthy_val (contract_type items) = None"
  shows "try_block rq nested n (Some c) =
     (Inr [fst (TypeDefinitionObjectProperty (n @ ''[]'') items (is_required rq n) True True),
           TypeDefinitionPrimitiveProperty n (normalize_type c) (is_required rq n) True],
      Some (set_contract_items
              (Some (snd (TypeDefinitionObjectProperty (n @ ''[]'') items (is_required rq n) True True)))
              (normalize_type c)))"
  using assms by (subst try_block.simps) (simp add: Let_def case_prod_unfold)

lemma try_block_unknown:
  assumes "contract_type (normalize_type c)
             \<notin> {Some ''integer'', Some ''number'', Some ''string'', Some ''boolean'',
                 Some ''object'', Some ''array'', Some ''combination''}"
  shows "try_block rq nested n (Some c) = (Inr [], Some (normalize_type c))"
  using assms by (subst try_block.simps) (simp add: Let_def)

lemma rebuild_fixpoint:
  "TypeDefinitionObjectProperty nm (snd (TypeDefinitionObjectProperty nm c r a nested)) r a nested
     = TypeDefinitionObjectProperty nm c r a nested"
  "try_block rq nested' n (snd (try_block rq nested' n po)) = try_block rq nested' n po"
  "TypeDefinitionIndexerProperty t = TypeDefinitionIndexerProperty t"
proof (induction nm c r a nested and rq nested' n po and t
        rule: TypeDefinitionObjectProperty_try_block_TypeDefinitionIndexerProperty.induct)
  case (1 nm c isRequired isArr nested)
  show ?case
  proof (cases "truthy_val (contract_ref c)")
    case (Some x)
    then show ?thesis by (simp add: TypeDefinitionObjectProperty_ref)
  next
    case None
    show ?thesis
    proof (cases "contract_items c")
      case (Some items)
      with None show ?thesis by (simp add: TypeDefinitionObjectProperty_items)
    next
      case noitems: None
      show ?thesis
      proof (cases "contract_properties c")
        case noprops: None
        with None noitems show ?thesis by (simp add: TypeDefinitionObjectProperty_plain)
      next
        case (Some entries)
        let ?rq = "contract_required c"
        let ?c' = "set_contract_properties (Some (map (mutated ?rq nested) entries)) c"
        have ih: "try_block ?rq nested (fst e) (snd (try_block ?rq nested (fst e) (snd e)))
                    = try_block ?rq nested (fst e) (snd e)" if "e \<in> set entries" for e
          using "1.IH"(1) [OF refl None noitems refl Some that, of "fst e" "snd e"] by simp
        have p: "map (pushed ?rq nested) (map (mutated ?rq nested) entries)
                   = map (pushed ?rq nested) entries"
          using ih by (simp add: pushed_def mutated_def)
        have m: "map (mutated ?rq nested) (map (mutated ?rq nested) entries)
                   = map (mutated ?rq nested) entries"
          using ih by (simp add: mutated_def)
        have first: "TypeDefinitionObjectProperty nm c isRequired isArr nested =
           (set_properties (Some (concat (map (pushed ?rq nested) entries)))
             (case contract_enum c of
               Some e \<Rightarrow> set_kind (Some ''enum'') (set_enum (Some e)
                  (set_kind (Some ''object'') (TypeDefinitionProperty ObjectProperty nm c isRequired isArr)))
             | None \<Rightarrow> set_kind (Some ''object'') (TypeDefinitionProperty ObjectProperty nm c isRequired isArr)),
            ?c')"
          using None noitems Some by (rule TypeDefinitionObjectProperty_properties)
        have second: "TypeDefinitionObjectProperty nm ?c' isRequired isArr nested =
           (set_properties (Some (concat (map (pushed ?rq nested) (map (mutated ?rq nested) entries))))
             (case contract_enum c of
               Some e \<Rightarrow> set_kind (Some ''enum'') (set_enum (Some e)
                  (set_kind (Some ''object'') (TypeDefinitionProperty ObjectProperty nm c isRequired isArr)))
             | None \<Rightarrow> set_kind (Some ''object'') (TypeDefinitionProperty ObjectProperty nm c isRequired isArr)),
            set_contract_properties (Some (map (mutated ?rq nested) (map (mutated ?rq nested) entries))) c)"
          using None noitems
          by (simp add: TypeDefinitionObjectProperty_properties [where entries = "map (mutated ?rq nested) entries"]
                split: option.splits)
        show ?thesis
          unfolding first snd_conv second p m ..
      qed
    qed
  qed
next
  case (2 rq nested n)
  show ?case by simp
next
  case (3 rq nested n pso0)
  let ?r = "is_required rq n"
  let ?pso = "normalize_type pso0"
  consider
      (prim) "contract_type ?pso \<in> {Some ''integer'', Some ''number'', Some ''string'', Some ''boolean''}"
    | (obj) "contract_type ?pso = Some ''object''"
    | (arr) "contract_type ?pso = Some ''array''"
    | (comb) "contract_type ?pso = Some ''combination''"
    | (unknown) "contract_type ?pso
             \<notin> {Some ''integer'', Some ''number'', Some ''string'', Some ''boolean'',
                 Some ''object'', Some ''array'', Some ''combination''}"
    by blast
  then show ?case
  proof cases
    case prim
    then show ?thesis by (simp add: try_block_primitive)
  next
    case obj
    let ?T = "TypeDefinitionObjectProperty n ?pso ?r True True"
    obtain v where v: "snd ?T = set_contract_properties v ?pso"
      using snd_TypeDefinitionObjectProperty by blast
    have stable: "normalize_type (snd ?T) = snd ?T"
      by (rule normalize_type_stable) (simp add: v normalize_type_type obj [unfolded normalize_type_type])
    have ih: "TypeDefinitionObjectProperty n (snd ?T) ?r True True = ?T"
      using "3.IH"(1) [OF refl refl _ obj] obj by simp
    have t': "contract_type (normalize_type (snd ?T)) = Some ''object''"
      unfolding stable by (simp add: v obj)
    show ?thesis
      unfolding try_block_object [OF obj] snd_conv try_block_object [OF t'] stable ih ..
  next
    case arr
    show ?thesis
    proof (cases "contract_items pso0")
      case None
      with arr show ?thesis by (simp add: try_block_array_without_items)
    next
      case (Some items)
      show ?thesis
      proof (cases "truthy_val (contract_ref items)")
        case (Some r)
        with arr \<open>contract_items pso0 = Some items\<close> show ?thesis
          by (simp add: try_block_array_reference)
      next
        case noref: None
        show ?thesis
        proof (cases "truthy_val (contract_type items)")
          case (Some t)
          with arr noref \<open>contract_items pso0 = Some items\<close> show ?thesis
            by (simp add: try_block_array_primitive)
        next
          case notype: None
          let ?T = "TypeDefinitionObjectProperty (n @ ''[]'') items ?r True True"
          let ?pso' = "set_contract_items (Some (snd ?T)) ?pso"
          note items = \<open>contract_items pso0 = Some items\<close>
          obtain v where v: "snd ?T = set_contract_properties v items"
            using snd_TypeDefinitionObjectProperty by blast
          have stable: "normalize_type ?pso' = ?pso'"
          proof (rule normalize_type_stable)
            show "contract_type (normalize_type ?pso') = contract_type ?pso'"
              using arr items by (simp add: normalize_type_type split: if_splits)
          qed
          have t': "contract_type (normalize_type ?pso') = Some ''array''"
            unfolding stable by (simp add: arr)
          have items': "contract_items ?pso' = Some (snd ?T)" by simp
          have noref': "truthy_val (contract_ref (snd ?T)) = None" by (simp add: v noref)
          have notype': "truthy_val (contract_type (snd ?T)) = None" by (simp add: v notype)
          have ih: "TypeDefinitionObjectProperty (n @ ''[]'') (snd ?T) ?r True True = ?T"
            using "3.IH"(2) [of ?r ?pso _ items] arr items noref notype by simp
          have same: "TypeDefinitionPrimitiveProperty n ?pso' ?r True
                        = TypeDefinitionPrimitiveProperty n ?pso ?r True"
            by (simp add: TypeDefinitionPrimitiveProperty_def)
          show ?thesis
            unfolding try_block_array_object [OF arr items noref notype] snd_conv
              try_block_array_object [OF t' items' noref' notype'] stable ih same
            by simp
        qed
      qed
    qed
  next
    case comb
    then show ?thesis by (simp add: try_block_combination split: sum.splits)
  next
    case unknown
    then show ?thesis by (simp add: try_block_unknown)
  qed
next
  case (4 t)
  show ?case ..
qed

lemma list_all2_concat_map:
  "(\<And>x. x \<in> set xs \<Longrightarrow> list_all2 R (f x) (g x))
     \<Longrightarrow> list_all2 R (concat (map f xs)) (concat (map g xs))"
  by (induction xs) (simp_all add: list_all2_appendI)

lemma renamed_under_extend:
  "renamed_under (prefix @ ''.'' @ n) q p \<Longrightarrow> renamed_under prefix q p"
proof -
  assume "renamed_under (prefix @ ''.'' @ n) q p"
  then obtain path where "q = set_name ((prefix @ ''.'' @ n) @ path @ ''.'' @ name p) p"
    unfolding renamed_under_def by blast
  then have "q = set_name (prefix @ (''.'' @ n @ path) @ ''.'' @ name p) p" by simp
  then show ?thesis unfolding renamed_under_def by blast
qed

section \<open>Verified claims\<close>

subsection \<open>Array flag of nested objects\<close>

text \<open>
  Claim C1. The flag \<open>isArray\<close> is documented as a hint that the property is an array, and
  the claim says a plain nested object child has \<open>isArray = False\<close>. The builder passes
  \<^verbatim>\<open>true\<close> for \<open>isArray\<close> whenever it builds a child of type \<^verbatim>\<open>"object"\<close>. For the fragment
  \<^verbatim>\<open>{properties: {arr: {items: {properties: {o: {type: "object"}}}}}}\<close> the tree
  keeps the plain nested object \<open>o\<close> inside the element object \<open>arr[]\<close>, and \<open>o\<close> has
  \<open>isArray = True\<close> with the type \<open>Primitive ''object''\<close>.
\<close>

theorem nested_object_marked_array:
  "properties (fst (TypeDefinition ''T'' array_of_objects_example)) =
     Some [Property ObjectProperty ''arr[]'' None (Primitive ''object'')
             (Some ''object'') None ''json'' False True None
             (Some [Property ObjectProperty ''o'' None (Primitive ''object'')
                      (Some ''object'') None ''json'' False True None None]),
           Property PrimitiveProperty ''arr'' None (Primitive ''array'')
             (Some ''primitive'') None ''json'' False True None None]"
  by code_simp

subsection \<open>A single fragment under \<^verbatim>\<open>not\<close>\<close>

text \<open>
  The claim C2 as stated fails: for
  \<^verbatim>\<open>{properties: {x: {not: {type: "string"}}, y: {type: "string"}}}\<close> the construction of
  \<open>x\<close> raises a \<^verbatim>\<open>TypeError\<close>, and the build still returns a tree, in which \<open>x\<close> is
  omitted and \<open>y\<close> is present.
\<close>

theorem single_not_counterexample:
  "fst (try_block None False ''x'' (Some single_not)) = Inl TypeError
   \<and> fst (TypeDefinition ''T'' single_not_parent) =
       Property TypeDefinitionRoot ''T'' None (Primitive ''object'') (Some ''object'') None
         ''json'' True False None
         (Some [Property PrimitiveProperty ''y'' None (Primitive ''string'')
                  (Some ''primitive'') None ''json'' False False None None])"
  by code_simp

text \<open>
  Claim C2, amended. When the fragment of a declared child has \<^verbatim>\<open>not\<close> holding a single
  fragment, building the child raises a \<^verbatim>\<open>TypeError\<close>, which is caught at the boundary
  of that child: the parent is built, and its properties are the ones it would have if
  the child were not declared.
\<close>

theorem single_not_caught:
  assumes "contract_not c = Some (Single f)"
  shows "fst (try_block (contract_required parent) nested n (Some c)) = Inl TypeError
       \<and> properties (fst (TypeDefinitionObjectProperty nm
            (set_contract_properties (Some (before @ (n, Some c) # after)) parent)
            isRequired isArr nested))
         = properties (fst (TypeDefinitionObjectProperty nm
            (set_contract_properties (Some (before @ after)) parent) isRequired isArr nested))"
proof -
  from assms have p: "precedence c = Some (''Not'', Single f)"
    by (simp add: precedence_def)
  then have t: "fst (try_block (contract_required parent) nested n (Some c)) = Inl TypeError"
    by (simp add: try_block_combination [OF precedence_type [OF p]]
          TypeDefinitionCombinationProperty_cases)
  then have "pushed (contract_required parent) nested (n, Some c) = []"
    by (simp add: pushed_def catch_block_def)
  from object_properties_skip [OF this] t show ?thesis by simp
qed

theorem single_not_caught_witness:
  "contract_not single_not = Some (Single (with_type ''string''))
   \<and> fst (try_block (contract_required empty_contract) False ''x'' (Some single_not))
       = Inl TypeError
   \<and> properties (fst (TypeDefinitionObjectProperty ''T''
        (set_contract_properties
           (Some ([] @ (''x'', Some single_not) # [(''y'', Some (with_type ''string''))]))
           empty_contract) True False False))
     = properties (fst (TypeDefinitionObjectProperty ''T''
        (set_contract_properties (Some ([] @ [(''y'', Some (with_type ''string''))]))
           empty_contract) True False False))"
proof -
  have h: "contract_not single_not = Some (Single (with_type ''string''))"
    by (simp add: single_not_def)
  from single_not_caught [OF h] h show ?thesis by blast
qed

subsection \<open>Precedence among the combination keys\<close>

text \<open>
  Claim C3. For a declared child fragment that carries combination keys, the winning key
  in the order \<^verbatim>\<open>not\<close>, \<^verbatim>\<open>oneOf\<close>, \<^verbatim>\<open>anyOf\<close>, \<^verbatim>\<open>allOf\<close> holding an array, the child is
  built as one combination property whose combination kind is the one of the winning
  key and whose members are made from the winning key's array.
\<close>

theorem combination_kind_by_precedence:
  assumes "precedence c = Some (k, Many xs)"
  shows "\<exists>p. fst (try_block rq nested n (Some c)) = Inr [p]
           \<and> kind p = Some ''combination''
           \<and> type p = Combination k (map combination_member xs)"
  using assms
  by (simp add: try_block_combination [OF precedence_type [OF assms]]
        TypeDefinitionCombinationProperty_cases)

theorem combination_kind_by_precedence_witness:
  "contract_anyOf any_and_not = Some [with_type ''string'']
   \<and> contract_not any_and_not = Some (Many [with_type ''integer''])
   \<and> precedence any_and_not = Some (''Not'', Many [with_type ''integer''])
   \<and> (\<exists>p. fst (try_block None False ''x'' (Some any_and_not)) = Inr [p]
           \<and> kind p = Some ''combination''
           \<and> type p = Combination ''Not'' [Primitive ''integer''])"
proof -
  have h: "precedence any_and_not = Some (''Not'', Many [with_type ''integer''])"
    by (simp add: precedence_def any_and_not_def)
  have m: "combination_member (with_type ''integer'') = Primitive ''integer''"
    by (simp add: combination_member_def with_type_def empty_contract_def truthy_val_def
          or_else_def)
  from combination_kind_by_precedence [OF h, of None False "''x''"] h m
  show ?thesis by (simp add: any_and_not_def)
qed

subsection \<open>Flattening of a nested object\<close>

text \<open>
  Claim C4. Building the object fragment
  \<^verbatim>\<open>{properties: {a: {type: "object", properties: {b: {type: "string"}}}}}\<close> with
  flattening enabled, under any name, gives a properties list with exactly one element:
  the property named \<open>a.b\<close> of kind \<open>primitive\<close>. No property named \<open>a\<close> is in the list.
\<close>

theorem nested_object_flattened:
  "properties (fst (TypeDefinition nm nested_object_example)) =
     Some [Property PrimitiveProperty ''a.b'' None (Primitive ''string'')
             (Some ''primitive'') None ''json'' False False None None]"
  by (simp add: TypeDefinition_def case_prod_unfold
        nested_object_example_def with_properties_def with_type_def empty_contract_def
        TypeDefinitionObjectProperty_properties truthy_val_def pushed_def catch_block_def
        try_block_object try_block_primitive normalize_type_type truthy_def is_required_def
        TypeDefinitionPrimitiveProperty_def TypeDefinitionProperty_def or_else_def example_of_def
        instanceof_TypeDefinitionObjectProperty_def)

subsection \<open>A child whose construction throws\<close>

text \<open>
  Claim C5. When the construction of a declared child throws, the parent is still built,
  and its properties list is the list built from the siblings alone, those declared
  before and those declared after the child: the child contributes nothing and every
  sibling contributes what it contributes without the child.
\<close>

theorem throwing_child_dropped:
  assumes "fst (try_block (contract_required parent) nested n (Some c)) = Inl e"
  shows "properties (fst (TypeDefinitionObjectProperty nm
            (set_contract_properties (Some (before @ (n, Some c) # after)) parent)
            isRequired isArr nested))
         = properties (fst (TypeDefinitionObjectProperty nm
            (set_contract_properties (Some (before @ after)) parent) isRequired isArr nested))"
proof -
  from assms have "pushed (contract_required parent) nested (n, Some c) = []"
    by (simp add: pushed_def catch_block_def)
  from object_properties_skip [OF this] show ?thesis .
qed

theorem throwing_child_dropped_witness:
  "fst (try_block (contract_required empty_contract) False ''x'' (Some (with_type ''combination'')))
     = Inl TypeError
   \<and> properties (fst (TypeDefinitionObjectProperty ''T''
        (set_contract_properties
           (Some ([(''w'', Some (with_type ''integer''))] @ (''x'', Some (with_type ''combination''))
                    # [(''y'', Some (with_type ''string''))]))
           empty_contract) True False False))
     = properties (fst (TypeDefinitionObjectProperty ''T''
        (set_contract_properties
           (Some ([(''w'', Some (with_type ''integer''))] @ [(''y'', Some (with_type ''string''))]))
           empty_contract) True False False))
   \<and> properties (fst (TypeDefinitionObjectProperty ''T''
        (set_contract_properties
           (Some ([(''w'', Some (with_type ''integer''))] @ [(''y'', Some (with_type ''string''))]))
           empty_contract) True False False))
     = Some [Property PrimitiveProperty ''w'' None (Primitive ''integer'')
               (Some ''primitive'') None ''json'' False False None None,
             Property PrimitiveProperty ''y'' None (Primitive ''string'')
               (Some ''primitive'') None ''json'' False False None None]"
proof -
  have h: "fst (try_block (contract_required empty_contract) False ''x''
                  (Some (with_type ''combination''))) = Inl TypeError"
    by code_simp
  have v: "properties (fst (TypeDefinitionObjectProperty ''T''
        (set_contract_properties
           (Some ([(''w'', Some (with_type ''integer''))] @ [(''y'', Some (with_type ''string''))]))
           empty_contract) True False False))
     = Some [Property PrimitiveProperty ''w'' None (Primitive ''integer'')
               (Some ''primitive'') None ''json'' False False None None,
             Property PrimitiveProperty ''y'' None (Primitive ''string'')
               (Some ''primitive'') None ''json'' False False None None]"
    by code_simp
  from throwing_child_dropped [OF h] h v show ?thesis by blast
qed

subsection \<open>Building twice\<close>

text \<open>
  Claim C6. The build overwrites the \<^verbatim>\<open>type\<close> field of child fragments in place. Building
  again from the fragment as the first build left it gives the same tree as the first
  build, and leaves the fragment as it is.
\<close>

theorem build_twice_equal:
  "TypeDefinition nm (snd (TypeDefinition nm c)) = TypeDefinition nm c"
  by (simp add: TypeDefinition_def case_prod_unfold rebuild_fixpoint(1))

subsection \<open>String children\<close>

text \<open>
  The claim C7 as stated fails: the child fragment
  \<^verbatim>\<open>{type: "string", format: "date-time"}\<close> has type \<^verbatim>\<open>"string"\<close> and no \<^verbatim>\<open>enum\<close>, and the
  property built from it has the type \<open>Primitive ''date-time''\<close>.
\<close>

theorem string_with_format_counterexample:
  "contract_type date_time_string = Some ''string'' \<and> contract_enum date_time_string = None
   \<and> fst (try_block None False ''created'' (Some date_time_string)) =
       Inr [Property PrimitiveProperty ''created'' None (Primitive ''date-time'')
              (Some ''primitive'') None ''json'' False False None None]"
  by code_simp

text \<open>
  Claim C7, amended. For a declared child fragment with type \<^verbatim>\<open>"string"\<close>, no \<^verbatim>\<open>enum\<close>, no
  \<^verbatim>\<open>$ref\<close>, no \<^verbatim>\<open>items\<close> and no combination key, the built child property has the kind
  \<open>primitive\<close>, and its type is \<open>Primitive\<close> of the format when a non-empty format is given
  and \<open>Primitive ''string''\<close> otherwise.
\<close>

theorem string_without_format_is_primitive:
  assumes "contract_type c = Some ''string''" and "contract_enum c = None"
      and "\<not> truthy (contract_ref c)" and "contract_items c = None"
      and "precedence c = None"
  shows "\<exists>p. fst (try_block rq nested n (Some c)) = Inr [p]
           \<and> kind p = Some ''primitive''
           \<and> type p = Primitive (or_else (contract_format c) ''string'')
           \<and> (\<not> truthy (contract_format c) \<longrightarrow> type p = Primitive ''string'')"
proof -
  from assms(5) have nc: "contract_allOf c = None" "contract_anyOf c = None"
      "contract_oneOf c = None" "contract_not c = None"
    by (simp_all add: precedence_def split: option.splits)
  with assms have t: "contract_type (normalize_type c) = Some ''string''"
    by (simp add: normalize_type_type)
  then show ?thesis using assms(2)
    by (simp add: try_block_primitive TypeDefinitionPrimitiveProperty_def or_else_def
          truthy_def truthy_val_def split: option.splits)
qed

theorem string_without_format_is_primitive_witness:
  "contract_type (with_type ''string'') = Some ''string''
   \<and> contract_enum (with_type ''string'') = None
   \<and> \<not> truthy (contract_ref (with_type ''string''))
   \<and> contract_items (with_type ''string'') = None
   \<and> precedence (with_type ''string'') = None
   \<and> \<not> truthy (contract_format (with_type ''string''))
   \<and> (\<exists>p. fst (try_block None False ''s'' (Some (with_type ''string''))) = Inr [p]
           \<and> kind p = Some ''primitive'' \<and> type p = Primitive ''string'')"
proof -
  have h: "contract_type (with_type ''string'') = Some ''string''"
      "contract_enum (with_type ''string'') = None"
      "\<not> truthy (contract_ref (with_type ''string''))"
      "contract_items (with_type ''string'') = None"
      "precedence (with_type ''string'') = None"
    by (simp_all add: with_type_def empty_contract_def truthy_def truthy_val_def precedence_def)
  have f: "\<not> truthy (contract_format (with_type ''string''))"
    by (simp add: with_type_def empty_contract_def truthy_def truthy_val_def)
  from string_without_format_is_primitive [OF h, of None False "''s''"] h f
  show ?thesis by blast
qed

subsection \<open>Indexers\<close>

text \<open>
  Claim C8. For every fragment handed to the object property builder that has \<^verbatim>\<open>items\<close>
  and no (truthy) \<^verbatim>\<open>$ref\<close>, the built property has the kind \<open>indexer\<close> and exactly one
  child. The child is named \<open>[]\<close> and is required, whatever the \<^verbatim>\<open>required\<close> list of the
  fragment and the flags of the build are. Its type is the reference named by
  \<^verbatim>\<open>items.$ref\<close> when that is given, else the primitive \<^verbatim>\<open>items.type\<close> when that is given,
  else the primitive \<open>object\<close>.
\<close>

theorem indexer_for_items:
  assumes "contract_items c = Some items" and "\<not> truthy (contract_ref c)"
  shows "kind (fst (TypeDefinitionObjectProperty nm c isRequired isArr nested)) = Some ''indexer''
       \<and> (\<exists>child. properties (fst (TypeDefinitionObjectProperty nm c isRequired isArr nested))
                     = Some [child]
             \<and> name child = ''[]'' \<and> required child
             \<and> type child =
                 (case truthy_val (contract_ref items) of
                    Some r \<Rightarrow> Reference (getTypeNameFromRef r)
                  | None \<Rightarrow>
                     (case truthy_val (contract_type items) of
                        Some t \<Rightarrow> Primitive t
                      | None \<Rightarrow> Primitive ''object'')))"
  using assms
  by (simp add: TypeDefinitionObjectProperty.simps [of nm c] truthy_def Let_def
        TypeDefinitionIndexerProperty_sel split: option.splits)

theorem indexer_for_items_witness:
  "contract_items map_of_strings = Some (with_type ''string'')
   \<and> \<not> truthy (contract_ref map_of_strings)
   \<and> kind (fst (TypeDefinitionObjectProperty ''m'' map_of_strings False False False))
       = Some ''indexer''
   \<and> (\<exists>child. properties (fst (TypeDefinitionObjectProperty ''m'' map_of_strings False False False))
                 = Some [child]
         \<and> name child = ''[]'' \<and> required child \<and> type child = Primitive ''string'')"
proof -
  have h: "contract_items map_of_strings = Some (with_type ''string'')"
      "\<not> truthy (contract_ref map_of_strings)"
    by (simp_all add: map_of_strings_def empty_contract_def truthy_def truthy_val_def)
  have t: "truthy_val (contract_ref (with_type ''string'')) = None"
      "truthy_val (contract_type (with_type ''string'')) = Some ''string''"
    by (simp_all add: with_type_def empty_contract_def truthy_val_def)
  from indexer_for_items [OF h, of "''m''" False False False] h t
  show ?thesis by simp
qed

subsection \<open>Flattening changes names only\<close>

text \<open>
  Claim C9. The properties that flattening emits are, one for one and in order, the leaf
  properties below the nested object; each emitted property equals its original except
  for the name, which is the original name behind a dotted path that begins with the
  prefix. So \<open>required\<close>, \<open>enum\<close>, \<open>type\<close>, \<open>kind\<close>, \<open>description\<close>, \<open>example\<close> and \<open>isArray\<close> pass
  through unchanged.
\<close>

theorem flatten_changes_only_names:
  "list_all2 (renamed_under prefix) (flattenNestedObjects nested prefix) (leaf_properties nested)"
proof (induction nested prefix rule: flattenNestedObjects.induct)
  case (1 cl na de ty ki ex ef rq ia en prefix)
  show ?case by simp
next
  case (2 cl na de ty ki ex ef rq ia en ps prefix)
  have "list_all2 (renamed_under prefix)
          (if instanceof_TypeDefinitionObjectProperty x
           then flattenNestedObjects x (prefix @ ''.'' @ name x)
           else [set_name (prefix @ ''.'' @ name x) x])
          (if instanceof_TypeDefinitionObjectProperty x then leaf_properties x else [x])"
    if "x \<in> set ps" for x
  proof (cases "instanceof_TypeDefinitionObjectProperty x")
    case True
    from "2.IH" [OF that True]
    have "list_all2 (renamed_under (prefix @ ''.'' @ name x))
            (flattenNestedObjects x (prefix @ ''.'' @ name x)) (leaf_properties x)" .
    then have "list_all2 (renamed_under prefix)
            (flattenNestedObjects x (prefix @ ''.'' @ name x)) (leaf_properties x)"
      by (rule list_all2_mono) (rule renamed_under_extend)
    with True show ?thesis by simp
  next
    case False
    have "renamed_under prefix (set_name (prefix @ ''.'' @ name x) x) x"
      unfolding renamed_under_def by (rule exI [of _ "[]"]) simp
    with False show ?thesis by simp
  qed
  then show ?case by (simp add: list_all2_concat_map)
qed

subsection \<open>Arrays without items\<close>

text \<open>
  Claim C10. A declared child whose fragment has the literal type \<^verbatim>\<open>"array"\<close> and no
  \<^verbatim>\<open>$ref\<close>, no \<^verbatim>\<open>items\<close> and no combination key pushes nothing and raises nothing: the
  parent's properties list is the one it would have if the child were not declared.
\<close>

theorem array_without_items_omitted:
  assumes "contract_type c = Some ''array''" and "\<not> truthy (contract_ref c)"
      and "contract_items c = None" and "precedence c = None"
  shows "fst (try_block (contract_required parent) nested n (Some c)) = Inr []
       \<and> properties (fst (TypeDefinitionObjectProperty nm
            (set_contract_properties (Some (before @ (n, Some c) # after)) parent)
            isRequired isArr nested))
         = properties (fst (TypeDefinitionObjectProperty nm
            (set_contract_properties (Some (before @ after)) parent) isRequired isArr nested))"
proof -
  from assms(4) have "contract_allOf c = None" "contract_anyOf c = None"
      "contract_oneOf c = None" "contract_not c = None"
    by (simp_all add: precedence_def split: option.splits)
  with assms have "contract_type (normalize_type c) = Some ''array''"
    by (simp add: normalize_type_type)
  then have t: "try_block (contract_required parent) nested n (Some c)
                  = (Inr [], Some (normalize_type c))"
    using assms(3) by (rule try_block_array_without_items)
  then have "pushed (contract_required parent) nested (n, Some c) = []"
    by (simp add: pushed_def catch_block_def)
  from object_properties_skip [OF this] t show ?thesis by simp
qed

theorem array_without_items_omitted_witness:
  "contract_type (with_type ''array'') = Some ''array''
   \<and> \<not> truthy (contract_ref (with_type ''array''))
   \<and> contract_items (with_type ''array'') = None
   \<and> precedence (with_type ''array'') = None
   \<and> fst (try_block (contract_required empty_contract) False ''tags'' (Some (with_type ''array'')))
       = Inr []
   \<and> properties (fst (TypeDefinitionObjectProperty ''T''
        (set_contract_properties
           (Some ([] @ (''tags'', Some (with_type ''array'')) # [(''y'', Some (with_type ''string''))]))
           empty_contract) True False False))
     = properties (fst (TypeDefinitionObjectProperty ''T''
        (set_contract_properties (Some ([] @ [(''y'', Some (with_type ''string''))]))
           empty_contract) True False False))"
proof -
  have h: "contract_type (with_type ''array'') = Some ''array''"
      "\<not> truthy (contract_ref (with_type ''array''))"
      "contract_items (with_type ''array'') = None"
      "precedence (with_type ''array'') = None"
    by (simp_all add: with_type_def empty_contract_def truthy_def truthy_val_def precedence_def)
  from array_without_items_omitted [OF h] h show ?thesis by blast
qed

end
